theory Spec2Isabelle
  imports Complex_Main
begin

section \<open>Python values used by the notebooks\<close>

text \<open>
  The notebooks are straight-line Python cells. Exceptions are modelled as values: a
  computation that can raise returns \<open>py_error + 'a\<close>, with \<open>Inl\<close> the exception.
\<close>

datatype py_error = KeyError | ValueError

section \<open>\<open>collections.defaultdict\<close>\<close>

text \<open>
  The join cells index the redshift table with \<^verbatim>\<open>dd = defaultdict(list)\<close>. A
  \<^verbatim>\<open>defaultdict\<close> is a dictionary with a \<^verbatim>\<open>default_factory\<close>: reading a missing key
  through \<^verbatim>\<open>dd[key]\<close> calls \<^verbatim>\<open>__missing__\<close>, which stores \<^verbatim>\<open>default_factory()\<close> under
  the key and returns it, or raises \<^verbatim>\<open>KeyError\<close> when there is no factory. The keys are
  \<^verbatim>\<open>TARGETID\<close> values, the stored values are lists of row positions.
\<close>

record defaultdict =
  default_factory :: "nat list option"
  entries :: "int \<rightharpoonup> nat list"

text \<open>\<^verbatim>\<open>defaultdict(list)\<close>: no entries, and the factory \<^verbatim>\<open>list\<close> returns \<^verbatim>\<open>[]\<close>.\<close>

definition defaultdict_list :: defaultdict where
  "defaultdict_list = \<lparr>default_factory = Some [], entries = Map.empty\<rparr>"

text \<open>\<^verbatim>\<open>item in dd\<close>: membership does not call \<^verbatim>\<open>__missing__\<close> and changes nothing.\<close>

definition contains :: "defaultdict \<Rightarrow> int \<Rightarrow> bool" where
  "contains d item = (entries d item \<noteq> None)"

text \<open>\<^verbatim>\<open>dd[item]\<close>: the value read, and the dictionary after the read.\<close>

definition getitem :: "defaultdict \<Rightarrow> int \<Rightarrow> py_error + (nat list \<times> defaultdict)" where
  "getitem d item =
     (case entries d item of
        Some v \<Rightarrow> Inr (v, d)
      | None \<Rightarrow>
          (case default_factory d of
             None \<Rightarrow> Inl KeyError
           | Some v \<Rightarrow> Inr (v, d\<lparr>entries := (entries d)(item \<mapsto> v)\<rparr>)))"

text \<open>
  \<^verbatim>\<open>dd[item].append(index)\<close>: the list stored under \<^verbatim>\<open>item\<close> (created by the read when
  missing) is extended in place.
\<close>

definition append_index :: "defaultdict \<Rightarrow> int \<Rightarrow> nat \<Rightarrow> py_error + defaultdict" where
  "append_index d item index =
     (case getitem d item of
        Inl e \<Rightarrow> Inl e
      | Inr (v, d') \<Rightarrow> Inr (d'\<lparr>entries := (entries d')(item \<mapsto> v @ [index])\<rparr>))"

section \<open>The identifier-keyed join\<close>

text \<open>
  \<^verbatim>\<open>
  dd = defaultdict(list)
  for index, item in enumerate(zs["TARGETID"]):
      dd[item].append(index)
  zqsos = [index for item in fm[qsos]["TARGETID"] for index in dd[item] if item in dd]
  \<close>
  The same four lines build \<^verbatim>\<open>zstds\<close> from \<^verbatim>\<open>fm[stds]\<close>. The loop over
  \<^verbatim>\<open>enumerate(zs["TARGETID"])\<close> is \<open>build_index\<close> on \<open>enumerate 0\<close> of the column.
\<close>

fun build_index :: "defaultdict \<Rightarrow> (nat \<times> int) list \<Rightarrow> py_error + defaultdict" where
  "build_index d [] = Inr d"
| "build_index d ((index, item) # rest) =
     (case append_index d item index of
        Inl e \<Rightarrow> Inl e
      | Inr d' \<Rightarrow> build_index d' rest)"

text \<open>
  The comprehension. For each \<^verbatim>\<open>item\<close> the iterable \<^verbatim>\<open>dd[item]\<close> is evaluated once (and
  may insert the key); the condition \<^verbatim>\<open>item in dd\<close> is then evaluated once per \<^verbatim>\<open>index\<close>
  of that list, against the dictionary as the read left it. The result is the list built
  and the dictionary after all reads.
\<close>

fun comprehension :: "defaultdict \<Rightarrow> int list \<Rightarrow> py_error + (nat list \<times> defaultdict)" where
  "comprehension d [] = Inr ([], d)"
| "comprehension d (item # items) =
     (case getitem d item of
        Inl e \<Rightarrow> Inl e
      | Inr (v, d1) \<Rightarrow>
          (case comprehension d1 items of
             Inl e \<Rightarrow> Inl e
           | Inr (out, d2) \<Rightarrow> Inr ([index \<leftarrow> v. contains d1 item] @ out, d2)))"

text \<open>
  The whole cell on the two identifier columns: \<open>zs_ids\<close> is \<^verbatim>\<open>zs["TARGETID"]\<close> (the
  redshift-fit table), \<open>fm_ids\<close> is \<^verbatim>\<open>fm[qsos]["TARGETID"]\<close> (the selected fibermap rows).
\<close>

definition join :: "int list \<Rightarrow> int list \<Rightarrow> py_error + nat list" where
  "join zs_ids fm_ids =
     (case build_index defaultdict_list (enumerate 0 zs_ids) of
        Inl e \<Rightarrow> Inl e
      | Inr d \<Rightarrow>
          (case comprehension d fm_ids of
             Inl e \<Rightarrow> Inl e
           | Inr (out, d') \<Rightarrow> Inr out))"

text \<open>
  The comprehension as it reads once the condition \<^verbatim>\<open>if item in dd\<close> is deleted:
  \<^verbatim>\<open>[index for item in fm[qsos]["TARGETID"] for index in dd[item]]\<close>.
\<close>

fun comprehension_no_guard ::
    "defaultdict \<Rightarrow> int list \<Rightarrow> py_error + (nat list \<times> defaultdict)" where
  "comprehension_no_guard d [] = Inr ([], d)"
| "comprehension_no_guard d (item # items) =
     (case getitem d item of
        Inl e \<Rightarrow> Inl e
      | Inr (v, d1) \<Rightarrow>
          (case comprehension_no_guard d1 items of
             Inl e \<Rightarrow> Inl e
           | Inr (out, d2) \<Rightarrow> Inr (v @ out, d2)))"

text \<open>
  What the join is meant to return for one target identifier: the positions of the
  redshift-fit rows that carry it, in table order.
\<close>

definition matching_positions :: "int list \<Rightarrow> int \<Rightarrow> nat list" where
  "matching_positions zs_ids t = [i \<leftarrow> [0..<length zs_ids]. zs_ids ! i = t]"

text \<open>The list a dictionary holds for a key, empty when the key is absent.\<close>

definition stored :: "defaultdict \<Rightarrow> int \<Rightarrow> nat list" where
  "stored d item = (case entries d item of None \<Rightarrow> [] | Some v \<Rightarrow> v)"

subsection \<open>The cell as a change of the notebook's variables\<close>

text \<open>
  The rows of the two tables, with the columns the notebooks read. Floating-point columns
  are modelled as the real numbers they denote.
\<close>

record zbest_row =
  TARGETID :: int
  SPECTYPE :: string
  SUBTYPE :: string
  Z :: real
  COEFF :: "real list"

record fibermap_row =
  TARGETID :: int
  TARGET_RA :: real
  TARGET_DEC :: real
  CMX_TARGET :: int

text \<open>
  The variables of the join cell: \<open>v_zs\<close> is the table \<^verbatim>\<open>zs\<close>, \<open>v_targets\<close> the selected
  fibermap rows \<^verbatim>\<open>fm[qsos]\<close> (or \<^verbatim>\<open>fm[stds]\<close>), \<open>v_dd\<close> and \<open>v_zqsos\<close> the two
  variables the cell assigns.
\<close>

record join_vars =
  v_zs :: "zbest_row list"
  v_targets :: "fibermap_row list"
  v_dd :: defaultdict
  v_zqsos :: "nat list"

definition join_cell :: "join_vars \<Rightarrow> py_error + join_vars" where
  "join_cell s =
     (case build_index defaultdict_list (enumerate 0 (map zbest_row.TARGETID (v_zs s))) of
        Inl e \<Rightarrow> Inl e
      | Inr d \<Rightarrow>
          (case comprehension d (map fibermap_row.TARGETID (v_targets s)) of
             Inl e \<Rightarrow> Inl e
           | Inr (out, d') \<Rightarrow> Inr (s\<lparr>v_dd := d', v_zqsos := out\<rparr>)))"

section \<open>Template reconstruction\<close>

text \<open>
  \<^verbatim>\<open>
  ncoeff = templates[fulltype].flux.shape[0]
  coeff = zbest['COEFF'][i][0:ncoeff]

  tflux = templates[fulltype].flux.T.dot(coeff)
  twave = templates[fulltype].wave * (1+z)
  \<close>
  A template carries \<^verbatim>\<open>flux\<close>, an array of shape (number of basis vectors, number of
  wavelength bins), held here as the list of its rows, and \<^verbatim>\<open>wave\<close>, the rest-frame
  grid with one entry per wavelength bin. The array is rectangular, so every row has an
  entry for each bin \<open>j\<close> of the grid and \<open>row ! j\<close> is read in range. Array entries are
  modelled as real numbers and the arithmetic on them as exact: rounding of the 64-bit
  floats is outside the model. What is proved below about the reconstruction is which
  entries of the stored row are read, when the shapes agree and when the product raises;
  none of it depends on how a product or a sum is rounded.
\<close>

record template =
  flux :: "real list list"
  wave :: "real list"

text \<open>
  \<^verbatim>\<open>A.T.dot(c)\<close> for a two-dimensional \<open>A\<close> with \<open>ncols\<close> columns and a one-dimensional
  \<open>c\<close>: entry \<open>j\<close> of the product is the sum over the rows of \<open>row[j] * c[i]\<close>. The product
  raises \<^verbatim>\<open>ValueError\<close> (shapes not aligned) unless \<open>c\<close> has one entry per row of \<open>A\<close>.
\<close>

definition dot_T :: "real list list \<Rightarrow> nat \<Rightarrow> real list \<Rightarrow> py_error + real list" where
  "dot_T A ncols c =
     (if length c \<noteq> length A then Inl ValueError
      else Inr (map (\<lambda>j. \<Sum>(row, cf) \<leftarrow> zip A c. row ! j * cf) [0..<ncols]))"

definition ncoeff :: "template \<Rightarrow> nat" where
  "ncoeff t = length (flux t)"

text \<open>The slice \<^verbatim>\<open>[0:ncoeff]\<close> of the stored coefficient row; a slice never raises.\<close>

definition coeff :: "template \<Rightarrow> real list \<Rightarrow> real list" where
  "coeff t stored_coeff = take (ncoeff t) stored_coeff"

definition tflux :: "template \<Rightarrow> real list \<Rightarrow> py_error + real list" where
  "tflux t c = dot_T (flux t) (length (wave t)) c"

definition twave :: "template \<Rightarrow> real \<Rightarrow> real list" where
  "twave t z = map (\<lambda>w. w * (1 + z)) (wave t)"

text \<open>
  The two cells in sequence, from the template, the stored coefficient row
  \<^verbatim>\<open>zbest['COEFF'][i]\<close> and the redshift \<^verbatim>\<open>z\<close> to the pair \<^verbatim>\<open>(tflux, twave)\<close>.
\<close>

definition reconstruct :: "template \<Rightarrow> real list \<Rightarrow> real \<Rightarrow> py_error + (real list \<times> real list)" where
  "reconstruct t stored_coeff z =
     (case tflux t (coeff t stored_coeff) of
        Inl e \<Rightarrow> Inl e
      | Inr f \<Rightarrow> Inr (f, twave t z))"

subsection \<open>The cells as a change of the notebook's variables\<close>

text \<open>
  \<open>v_template\<close> is the object \<^verbatim>\<open>templates[fulltype]\<close>, \<open>v_zbest_i\<close> the row \<^verbatim>\<open>zbest[i]\<close>
  (its \<open>Z\<close> is the variable \<^verbatim>\<open>z\<close>); the other four are the variables the cells assign.
  A cell that raises assigns nothing: it leaves the variables as they were and reports
  the exception.
\<close>

record redrock_vars =
  v_template :: template
  v_zbest_i :: zbest_row
  v_ncoeff :: nat
  v_coeff :: "real list"
  v_tflux :: "real list"
  v_twave :: "real list"

definition cell_coeff :: "redrock_vars \<Rightarrow> redrock_vars" where
  "cell_coeff s =
     (let s1 = s\<lparr>v_ncoeff := length (flux (v_template s))\<rparr>
      in s1\<lparr>v_coeff := take (v_ncoeff s1) (COEFF (v_zbest_i s1))\<rparr>)"

definition cell_tflux :: "redrock_vars \<Rightarrow> redrock_vars \<times> py_error option" where
  "cell_tflux s =
     (case dot_T (flux (v_template s)) (length (wave (v_template s))) (v_coeff s) of
        Inl e \<Rightarrow> (s, Some e)
      | Inr f \<Rightarrow>
          (s\<lparr>v_tflux := f,
             v_twave := map (\<lambda>w. w * (1 + Z (v_zbest_i s))) (wave (v_template s))\<rparr>, None))"

section \<open>The environment check\<close>

text \<open>
  \<^verbatim>\<open>
  def check_env():
      for env in ('DESI_SPECTRO_REDUX', 'SPECPROD'):
          if env in os.environ:
              print('${}={}'.format(env, os.getenv(env)))
          else:
              print('Required environment variable {} not set!'.format(env))

      reduxdir = desispec.io.specprod_root()
      if not os.path.exists(reduxdir):
          print("ERROR: {} doesn't exist; check $DESI_SPECTRO_REDUX/$SPECPROD".format(reduxdir))
      else:
          print('OK: {} exists'.format(reduxdir))
  \<close>
  The process environment is a map from names to values, the file system the set of
  paths that exist. \<^verbatim>\<open>desispec.io.specprod_root\<close> belongs to the external
  \<^verbatim>\<open>desispec\<close> package, not to the notebooks: it is a parameter of the model, a function
  of the environment that returns a path or raises. The result of \<open>check_env\<close> is the
  list of lines printed and how the call ended: \<open>Inr ()\<close> for a normal return,
  \<open>Inl e\<close> for the exception \<open>e\<close>. Lines printed before an exception stay printed.
\<close>

type_synonym environ = "string \<rightharpoonup> string"

text \<open>The line one iteration of the loop prints.\<close>

definition env_line :: "environ \<Rightarrow> string \<Rightarrow> string" where
  "env_line environ env =
     (case environ env of
        Some v \<Rightarrow> ''$'' @ env @ ''='' @ v
      | None \<Rightarrow> ''Required environment variable '' @ env @ '' not set!'')"

definition check_env ::
    "(environ \<Rightarrow> py_error + string) \<Rightarrow> string set \<Rightarrow> environ
       \<Rightarrow> string list \<times> (py_error + unit)" where
  "check_env specprod_root existing environ =
     (let out = map (env_line environ) [''DESI_SPECTRO_REDUX'', ''SPECPROD''] in
      case specprod_root environ of
        Inl e \<Rightarrow> (out, Inl e)
      | Inr reduxdir \<Rightarrow>
          if \<not> (reduxdir \<in> existing)
          then (out @ [''ERROR: '' @ reduxdir
                       @ '' doesn't exist; check $DESI_SPECTRO_REDUX/$SPECPROD''], Inr ())
          else (out @ [''OK: '' @ reduxdir @ '' exists''], Inr ()))"

text \<open>
  Modelled from the spec: \<^verbatim>\<open>desispec.io.specprod_root\<close> is not part of the repository.
  The spec describes it as the external helper that resolves the root path from two
  environment variables, a redux root and a production-name subdirectory, and
  \<open>check_env\<close> names the path \<^verbatim>\<open>$DESI_SPECTRO_REDUX/$SPECPROD\<close>. This instance reads both
  variables with \<^verbatim>\<open>os.environ[...]\<close>, which raises \<^verbatim>\<open>KeyError\<close> for a name that is not
  set.
\<close>

definition specprod_root_environ :: "environ \<Rightarrow> py_error + string" where
  "specprod_root_environ environ =
     (case environ ''DESI_SPECTRO_REDUX'' of
        None \<Rightarrow> Inl KeyError
      | Some redux \<Rightarrow>
          (case environ ''SPECPROD'' of
             None \<Rightarrow> Inl KeyError
           | Some specprod \<Rightarrow> Inr (redux @ ''/'' @ specprod)))"

section \<open>Properties of the join\<close>

subsection \<open>Reading and extending the dictionary\<close>

lemma getitem_list:
  assumes "default_factory d = Some []"
  shows "\<exists>d1. getitem d item = Inr (stored d item, d1) \<and> default_factory d1 = Some [] \<and>
           stored d1 = stored d \<and> contains d1 item"
proof (cases "entries d item")
  case None
  let ?d1 = "d\<lparr>entries := (entries d)(item \<mapsto> [])\<rparr>"
  have "getitem d item = Inr (stored d item, ?d1)"
    using None assms by (simp add: getitem_def stored_def)
  moreover have "stored ?d1 = stored d"
    using None by (simp add: stored_def fun_eq_iff)
  moreover have "default_factory ?d1 = Some []" "contains ?d1 item"
    using assms by (simp_all add: contains_def)
  ultimately show ?thesis by blast
next
  case (Some v)
  then have "getitem d item = Inr (stored d item, d)" "contains d item"
    by (simp_all add: getitem_def stored_def contains_def)
  with assms show ?thesis by blast
qed

lemma append_index_list:
  assumes "default_factory d = Some []"
  shows "\<exists>d'. append_index d item index = Inr d' \<and> default_factory d' = Some [] \<and>
           (\<forall>k. stored d' k = stored d k @ (if k = item then [index] else []))"
proof -
  obtain d1 where g: "getitem d item = Inr (stored d item, d1)"
    and f1: "default_factory d1 = Some []" and s1: "stored d1 = stored d"
    using getitem_list [OF assms, of item] by blast
  let ?d' = "d1\<lparr>entries := (entries d1)(item \<mapsto> stored d item @ [index])\<rparr>"
  have "append_index d item index = Inr ?d'"
    using g by (simp add: append_index_def)
  moreover have "stored ?d' k = stored d k @ (if k = item then [index] else [])" for k
    using fun_cong [OF s1, of k] by (simp add: stored_def)
  moreover have "default_factory ?d' = Some []"
    using f1 by simp
  ultimately show ?thesis by blast
qed

lemma getitem_contains:
  assumes "getitem d item = Inr (v, d1)"
  shows "contains d1 item"
  using assms
  by (auto simp: getitem_def contains_def split: option.splits)

subsection \<open>The index built by the loop\<close>

lemma upt_filter_shift:
  "[i \<leftarrow> [n..<n + length (x # xs)]. (x # xs) ! (i - n) = k] =
     (if x = k then [n] else []) @ [i \<leftarrow> [Suc n..<Suc n + length xs]. xs ! (i - Suc n) = k]"
proof -
  have tl: "[i \<leftarrow> [Suc n..<Suc n + length xs]. (x # xs) ! (i - n) = k] =
        [i \<leftarrow> [Suc n..<Suc n + length xs]. xs ! (i - Suc n) = k]"
  proof (rule filter_cong [OF refl])
    fix i
    assume "i \<in> set [Suc n..<Suc n + length xs]"
    then have "i - n = Suc (i - Suc n)"
      by auto
    then show "((x # xs) ! (i - n) = k) = (xs ! (i - Suc n) = k)"
      by simp
  qed
  have hd: "[n..<n + length (x # xs)] = n # [Suc n..<Suc n + length xs]"
    by (simp add: upt_conv_Cons del: upt_Suc)
  show ?thesis
    unfolding hd filter.simps tl by simp
qed

lemma build_index_stored:
  assumes "default_factory d = Some []"
  shows "\<exists>d'. build_index d (enumerate n xs) = Inr d' \<and> default_factory d' = Some [] \<and>
           (\<forall>k. stored d' k = stored d k @ [i \<leftarrow> [n..<n + length xs]. xs ! (i - n) = k])"
  using assms
proof (induction xs arbitrary: n d)
  case Nil
  then show ?case by simp
next
  case (Cons x xs)
  obtain d1 where a: "append_index d x n = Inr d1"
    and f1: "default_factory d1 = Some []"
    and s1: "\<And>k. stored d1 k = stored d k @ (if k = x then [n] else [])"
    using append_index_list [OF Cons.prems, of x n] by blast
  obtain d2 where b: "build_index d1 (enumerate (Suc n) xs) = Inr d2"
    and f2: "default_factory d2 = Some []"
    and s2: "\<And>k. stored d2 k = stored d1 k @ [i \<leftarrow> [Suc n..<Suc n + length xs]. xs ! (i - Suc n) = k]"
    using Cons.IH [OF f1, of "Suc n"] by blast
  have "build_index d (enumerate n (x # xs)) = Inr d2"
    using a b by simp
  moreover have "stored d2 k = stored d k @ [i \<leftarrow> [n..<n + length (x # xs)]. (x # xs) ! (i - n) = k]" for k
    unfolding upt_filter_shift s2 s1 by simp
  ultimately show ?case
    using f2 by blast
qed

lemma build_index_matching_positions:
  "\<exists>d. build_index defaultdict_list (enumerate 0 zs_ids) = Inr d \<and>
        default_factory d = Some [] \<and> stored d = matching_positions zs_ids"
proof -
  have f0: "default_factory defaultdict_list = Some []"
    by (simp add: defaultdict_list_def)
  obtain d where b: "build_index defaultdict_list (enumerate 0 zs_ids) = Inr d"
    and f: "default_factory d = Some []"
    and s: "\<And>k. stored d k =
               stored defaultdict_list k @ [i \<leftarrow> [0..<0 + length zs_ids]. zs_ids ! (i - 0) = k]"
    using build_index_stored [OF f0, of 0 zs_ids] by blast
  have "stored d = matching_positions zs_ids"
    using s by (simp add: fun_eq_iff matching_positions_def stored_def defaultdict_list_def)
  with b f show ?thesis by blast
qed

subsection \<open>The comprehension\<close>

lemma comprehension_stored:
  assumes "default_factory d = Some []"
  shows "\<exists>d'. comprehension d items = Inr (concat (map (stored d) items), d')"
  using assms
proof (induction items arbitrary: d)
  case Nil
  then show ?case by simp
next
  case (Cons item items)
  obtain d1 where g: "getitem d item = Inr (stored d item, d1)"
    and f1: "default_factory d1 = Some []" and s1: "stored d1 = stored d"
    and c1: "contains d1 item"
    using getitem_list [OF Cons.prems, of item] by blast
  obtain d2 where r: "comprehension d1 items = Inr (concat (map (stored d1) items), d2)"
    using Cons.IH [OF f1] by blast
  have "comprehension d (item # items) = Inr (concat (map (stored d) (item # items)), d2)"
    using g r c1 s1 by simp
  then show ?case by blast
qed

lemma join_concat:
  "join zs_ids fm_ids = Inr (concat (map (matching_positions zs_ids) fm_ids))"
proof -
  obtain d where b: "build_index defaultdict_list (enumerate 0 zs_ids) = Inr d"
    and f: "default_factory d = Some []" and s: "stored d = matching_positions zs_ids"
    using build_index_matching_positions by blast
  obtain d' where "comprehension d fm_ids = Inr (concat (map (stored d) fm_ids), d')"
    using comprehension_stored [OF f, of fm_ids] by blast
  then show ?thesis
    using b s by (simp add: join_def)
qed

lemma matching_positions_absent:
  assumes "t \<notin> set zs_ids"
  shows "matching_positions zs_ids t = []"
  using assms by (auto simp: matching_positions_def filter_empty_conv)

lemma comprehension_guard_redundant:
  "comprehension d items = comprehension_no_guard d items"
proof (induction items arbitrary: d)
  case Nil
  show ?case by simp
next
  case (Cons item items)
  show ?case
  proof (cases "getitem d item")
    case (Inl e)
    then show ?thesis by simp
  next
    case (Inr r)
    obtain v d1 where r: "r = (v, d1)" by (cases r)
    have "contains d1 item"
      using Inr r getitem_contains by blast
    then have "[index \<leftarrow> v. contains d1 item] = v"
      by simp
    then show ?thesis
      using Inr r Cons.IH [of d1] by (simp split: sum.splits prod.splits)
  qed
qed

subsection \<open>The claims about the join\<close>

text \<open>
  C1. For every column of fit identifiers and every column of target identifiers the
  join returns normally, and its result is the concatenation, over the targets in their
  order, of each target's matching fit positions (the positions of the fit table whose
  identifier equals the target's, in increasing order): one output entry per match. For
  targets \<open>[5,7,5]\<close> against fit identifiers \<open>[7,5,5,9]\<close> this is \<open>[1,2]\<close>, then \<open>[0]\<close>,
  then \<open>[1,2]\<close> again.
\<close>

theorem join_matching_positions:
  "join zs_ids fm_ids =
     Inr (concat (map (\<lambda>t. [i \<leftarrow> [0..<length zs_ids]. zs_ids ! i = t]) fm_ids))
   \<and> join [7, 5, 5, 9] [5, 7, 5] = Inr ([1, 2] @ [0] @ [1, 2])"
proof -
  have eq: "matching_positions zs = (\<lambda>t. [i \<leftarrow> [0..<length zs]. zs ! i = t])" for zs
    by (simp add: fun_eq_iff matching_positions_def)
  have "join [7, 5, 5, 9] [5, 7, 5] = Inr ([1, 2] @ [0] @ [1, 2])"
    unfolding join_concat by (simp add: matching_positions_def upt_rec)
  then show ?thesis
    using join_concat [of zs_ids fm_ids] by (simp only: eq simp_thms)
qed

text \<open>
  C2. A target whose identifier occurs nowhere in the fit column contributes no output
  entry: the join of the targets with it is the join of the targets without it, and the
  join of that target alone is empty. Nothing is raised: the join returns normally.
\<close>

theorem join_drops_unmatched:
  assumes "t \<notin> set zs_ids"
  shows "join zs_ids (before @ [t] @ after) = join zs_ids (before @ after)
         \<and> join zs_ids [t] = Inr []
         \<and> (\<exists>out. join zs_ids (before @ [t] @ after) = Inr out)"
  using matching_positions_absent [OF assms] by (simp add: join_concat)

theorem join_drops_unmatched_witness:
  "(3::int) \<notin> set [7, 5, 5, 9]
   \<and> join [7, 5, 5, 9] ([5] @ [3] @ [7]) = join [7, 5, 5, 9] ([5] @ [7])
   \<and> join [7, 5, 5, 9] [3] = Inr []
   \<and> join [7, 5, 5, 9] ([5] @ [7]) = Inr [1, 2, 0]"
proof -
  have h: "(3::int) \<notin> set [7, 5, 5, 9]" by simp
  have "join [7, 5, 5, 9] ([5] @ [7]) = Inr [1, 2, 0]"
    unfolding join_concat by (simp add: matching_positions_def upt_rec)
  then show ?thesis
    using h join_drops_unmatched [OF h, of "[5]" "[7]"] by simp
qed

text \<open>
  C9. The condition \<open>item in dd\<close> holds whenever it is evaluated: a read \<open>dd[item]\<close>
  that returns leaves \<open>item\<close> in the dictionary, and the condition is evaluated only
  after that read. So for every dictionary, in particular the index built from any fit
  column, and every column of target identifiers, the comprehension and the
  comprehension without the condition give the same result.
\<close>

theorem guard_always_true:
  "(\<forall>v d1. getitem d item = Inr (v, d1) \<longrightarrow> contains d1 item)
   \<and> comprehension d fm_ids = comprehension_no_guard d fm_ids"
  using getitem_contains comprehension_guard_redundant by blast

theorem guard_always_true_witness:
  "getitem defaultdict_list 3 = Inr ([], defaultdict_list\<lparr>entries := [3 \<mapsto> []]\<rparr>)
   \<and> contains (defaultdict_list\<lparr>entries := [3 \<mapsto> []]\<rparr>) 3
   \<and> comprehension defaultdict_list [3, 3] = comprehension_no_guard defaultdict_list [3, 3]"
proof -
  have g: "getitem defaultdict_list 3 = Inr ([], defaultdict_list\<lparr>entries := [3 \<mapsto> []]\<rparr>)"
    by (simp add: getitem_def defaultdict_list_def)
  show ?thesis
    using g guard_always_true [of defaultdict_list 3 "[3, 3]"] by blast
qed

section \<open>Properties of the template reconstruction\<close>

subsection \<open>The product with the transposed basis\<close>

lemma zip_by_index:
  assumes "length ys = length xs"
  shows "zip xs ys = map (\<lambda>i. (xs ! i, ys ! i)) [0..<length xs]"
  using assms by (intro nth_equalityI) simp_all

lemma weighted_sum_by_index:
  assumes "length c = length A"
  shows "(\<Sum>(row, cf) \<leftarrow> zip A c. (row :: real list) ! j * cf) = (\<Sum>i \<leftarrow> [0..<length A]. A ! i ! j * c ! i)"
  by (simp add: zip_by_index [OF assms] comp_def)

lemma dot_T_take:
  assumes "length A \<le> length cs"
  shows "dot_T A ncols (take (length A) cs) =
           Inr (map (\<lambda>j. \<Sum>i \<leftarrow> [0..<length A]. A ! i ! j * cs ! i) [0..<ncols])"
proof -
  have len: "length (take (length A) cs) = length A"
    using assms by simp
  have "(\<Sum>i \<leftarrow> [0..<length A]. A ! i ! j * take (length A) cs ! i) =
        (\<Sum>i \<leftarrow> [0..<length A]. A ! i ! j * cs ! i)" for j
    by (rule arg_cong [where f = sum_list], rule map_cong) simp_all
  then show ?thesis
    using len by (simp add: dot_T_def weighted_sum_by_index [OF len])
qed

lemma dot_T_short:
  assumes "length cs < length A"
  shows "dot_T A ncols (take (length A) cs) = Inl ValueError"
  using assms by (simp add: dot_T_def)

lemma reconstruct_enough:
  assumes "ncoeff t \<le> length cs"
  shows "reconstruct t cs z =
           Inr (map (\<lambda>j. \<Sum>i \<leftarrow> [0..<ncoeff t]. flux t ! i ! j * cs ! i) [0..<length (wave t)],
                twave t z)"
  using assms unfolding reconstruct_def tflux_def coeff_def ncoeff_def
  by (simp only: dot_T_take sum.case)

lemma reconstruct_short:
  assumes "length cs < ncoeff t"
  shows "reconstruct t cs z = Inl ValueError"
  using assms unfolding reconstruct_def tflux_def coeff_def ncoeff_def
  by (simp only: dot_T_short sum.case)

subsection \<open>The claims about the reconstruction\<close>

text \<open>
  C5, as the code has it. A stored coefficient row with at least as many entries as the
  template has basis vectors is cut to its first \<open>ncoeff\<close> entries by the slice, and the
  reconstruction returns: bin \<open>j\<close> of the flux is the sum over the basis vectors \<open>i\<close> of
  \<open>flux[i][j] * stored[i]\<close>. A stored row with fewer entries is not guarded: the product
  raises \<open>ValueError\<close>.
\<close>

theorem reconstruct_trims_excess:
  "(ncoeff t \<le> length cs \<longrightarrow>
      reconstruct t cs z =
        Inr (map (\<lambda>j. \<Sum>i \<leftarrow> [0..<ncoeff t]. flux t ! i ! j * cs ! i) [0..<length (wave t)],
             twave t z))
   \<and> (length cs < ncoeff t \<longrightarrow> reconstruct t cs z = Inl ValueError)"
  using reconstruct_enough reconstruct_short by blast

theorem reconstruct_trims_excess_witness:
  "ncoeff \<lparr>flux = [[1, 2]], wave = [10, 20]\<rparr> \<le> length [3, 4 :: real]
   \<and> reconstruct \<lparr>flux = [[1, 2]], wave = [10, 20]\<rparr> [3, 4] 0 = Inr ([3, 6], [10, 20])
   \<and> length [3 :: real] < ncoeff \<lparr>flux = [[1, 2], [3, 4]], wave = [10, 20]\<rparr>
   \<and> reconstruct \<lparr>flux = [[1, 2], [3, 4]], wave = [10, 20]\<rparr> [3] 0 = Inl ValueError"
proof -
  have h1: "ncoeff \<lparr>flux = [[1, 2]], wave = [10, 20]\<rparr> \<le> length [3, 4 :: real]"
    and h2: "length [3 :: real] < ncoeff \<lparr>flux = [[1, 2], [3, 4]], wave = [10, 20]\<rparr>"
    by (simp_all add: ncoeff_def)
  show ?thesis
    using h1 h2
      reconstruct_trims_excess [of "\<lparr>flux = [[1, 2]], wave = [10, 20]\<rparr>" "[3, 4]" 0]
      reconstruct_trims_excess [of "\<lparr>flux = [[1, 2], [3, 4]], wave = [10, 20]\<rparr>" "[3]" 0]
    by (simp add: twave_def ncoeff_def upt_rec)
qed

text \<open>
  C5, as stated, fails: a stored row longer than the basis is not passed to the product
  as it is. With one basis vector and the stored row \<open>[3, 4]\<close> the cells compute the
  flux from the slice \<open>[3]\<close>, where the product with the row as supplied raises.
\<close>

theorem reconstruct_unadjusted_counterexample:
  "tflux \<lparr>flux = [[1, 2]], wave = [10, 20]\<rparr> (coeff \<lparr>flux = [[1, 2]], wave = [10, 20]\<rparr> [3, 4])
     = Inr [3, 6]
   \<and> tflux \<lparr>flux = [[1, 2]], wave = [10, 20]\<rparr> [3, 4] = Inl ValueError"
  by (simp add: tflux_def coeff_def ncoeff_def dot_T_def upt_rec)

text \<open>
  C10. The reconstructed flux depends only on the first \<open>ncoeff\<close> entries of the stored
  coefficient row: two rows of length at least \<open>ncoeff\<close> that agree on their first
  \<open>ncoeff\<close> entries give the same flux, and the reconstruction returns it.
\<close>

theorem tflux_first_ncoeff_only:
  assumes "ncoeff t \<le> length c1" and "ncoeff t \<le> length c2"
    and "\<forall>i < ncoeff t. c1 ! i = c2 ! i"
  shows "tflux t (coeff t c1) = tflux t (coeff t c2)
         \<and> (\<exists>f. tflux t (coeff t c1) = Inr f \<and> length f = length (wave t))"
proof -
  have "take (ncoeff t) c1 = take (ncoeff t) c2"
    using assms by (intro nth_take_lemma) simp_all
  moreover have "\<exists>f. tflux t (coeff t c1) = Inr f \<and> length f = length (wave t)"
    using assms(1) by (simp add: tflux_def coeff_def ncoeff_def dot_T_take)
  ultimately show ?thesis
    by (simp add: coeff_def)
qed

theorem tflux_first_ncoeff_only_witness:
  "ncoeff \<lparr>flux = [[1, 2], [3, 4]], wave = [10, 20]\<rparr> \<le> length [3, 1, 7 :: real]
   \<and> ncoeff \<lparr>flux = [[1, 2], [3, 4]], wave = [10, 20]\<rparr> \<le> length [3, 1, 0, 9 :: real]
   \<and> [3, 1, 7 :: real] ! 0 = [3, 1, 0, 9] ! 0 \<and> [3, 1, 7 :: real] ! 1 = [3, 1, 0, 9] ! 1
   \<and> tflux \<lparr>flux = [[1, 2], [3, 4]], wave = [10, 20]\<rparr>
        (coeff \<lparr>flux = [[1, 2], [3, 4]], wave = [10, 20]\<rparr> [3, 1, 7])
     = tflux \<lparr>flux = [[1, 2], [3, 4]], wave = [10, 20]\<rparr>
        (coeff \<lparr>flux = [[1, 2], [3, 4]], wave = [10, 20]\<rparr> [3, 1, 0, 9])
   \<and> tflux \<lparr>flux = [[1, 2], [3, 4]], wave = [10, 20]\<rparr>
        (coeff \<lparr>flux = [[1, 2], [3, 4]], wave = [10, 20]\<rparr> [3, 1, 7]) = Inr [6, 10]"
proof -
  have h1: "ncoeff \<lparr>flux = [[1, 2], [3, 4]], wave = [10, 20]\<rparr> \<le> length [3, 1, 7 :: real]"
    and h2: "ncoeff \<lparr>flux = [[1, 2], [3, 4]], wave = [10, 20]\<rparr> \<le> length [3, 1, 0, 9 :: real]"
    by (simp_all add: ncoeff_def)
  have h3: "\<forall>i < ncoeff \<lparr>flux = [[1, 2], [3, 4]], wave = [10, 20]\<rparr>.
              [3, 1, 7 :: real] ! i = [3, 1, 0, 9] ! i"
    by (simp add: ncoeff_def less_Suc_eq numeral_2_eq_2)
  have v: "tflux \<lparr>flux = [[1, 2], [3, 4]], wave = [10, 20]\<rparr>
        (coeff \<lparr>flux = [[1, 2], [3, 4]], wave = [10, 20]\<rparr> [3, 1, 7]) = Inr [6, 10]"
    by (simp add: tflux_def coeff_def ncoeff_def dot_T_def upt_rec)
  show ?thesis
    using h1 h2 v tflux_first_ncoeff_only [OF h1 h2 h3] by simp
qed

section \<open>Properties of the environment check\<close>

lemma env_line_set:
  assumes "environ env = Some v"
  shows "env_line environ env = ''$'' @ env @ ''='' @ v"
  using assms by (simp add: env_line_def)

lemma env_line_unset:
  assumes "environ env = None"
  shows "env_line environ env = ''Required environment variable '' @ env @ '' not set!''"
  using assms by (simp add: env_line_def)

lemma check_env_returns:
  assumes "specprod_root environ = Inr reduxdir"
  shows "check_env specprod_root existing environ =
           ([env_line environ ''DESI_SPECTRO_REDUX'', env_line environ ''SPECPROD'',
             if reduxdir \<in> existing then ''OK: '' @ reduxdir @ '' exists''
             else ''ERROR: '' @ reduxdir
                    @ '' doesn't exist; check $DESI_SPECTRO_REDUX/$SPECPROD''],
            Inr ())"
  using assms by (simp add: check_env_def)

lemma check_env_propagates:
  assumes "specprod_root environ = Inl e"
  shows "check_env specprod_root existing environ =
           ([env_line environ ''DESI_SPECTRO_REDUX'', env_line environ ''SPECPROD''], Inl e)"
  using assms by (simp add: check_env_def)

text \<open>
  C7, as the code has it. \<open>check_env\<close> prints one line for each of the two variables:
  \<open>$NAME=value\<close>, with the whole value, when the variable is set, and the \<open>not set\<close>
  diagnostic when it is missing. It then calls \<open>specprod_root\<close> with no handler around
  it. When that call returns a directory, \<open>check_env\<close> prints the \<open>ERROR\<close> diagnostic if
  the directory does not exist and the \<open>OK\<close> line if it does, and returns normally.
  \<open>check_env\<close> raises nothing of its own: when the call raises, the exception leaves
  \<open>check_env\<close> after the two lines are printed.
\<close>

theorem check_env_diagnostics:
  "(\<forall>env v. environ env = Some v \<longrightarrow> env_line environ env = ''$'' @ env @ ''='' @ v)
   \<and> (\<forall>env. environ env = None \<longrightarrow>
         env_line environ env = ''Required environment variable '' @ env @ '' not set!'')
   \<and> (\<forall>reduxdir. specprod_root environ = Inr reduxdir \<longrightarrow>
         check_env specprod_root existing environ =
           ([env_line environ ''DESI_SPECTRO_REDUX'', env_line environ ''SPECPROD'',
             if reduxdir \<in> existing then ''OK: '' @ reduxdir @ '' exists''
             else ''ERROR: '' @ reduxdir
                    @ '' doesn't exist; check $DESI_SPECTRO_REDUX/$SPECPROD''],
            Inr ()))
   \<and> (\<forall>e. specprod_root environ = Inl e \<longrightarrow>
         check_env specprod_root existing environ =
           ([env_line environ ''DESI_SPECTRO_REDUX'', env_line environ ''SPECPROD''], Inl e))"
proof (intro conjI allI impI)
  fix env v
  assume "environ env = Some v"
  then show "env_line environ env = ''$'' @ env @ ''='' @ v"
    by (rule env_line_set)
next
  fix env
  assume "environ env = None"
  then show "env_line environ env = ''Required environment variable '' @ env @ '' not set!''"
    by (rule env_line_unset)
next
  fix reduxdir
  assume "specprod_root environ = Inr reduxdir"
  then show "check_env specprod_root existing environ =
           ([env_line environ ''DESI_SPECTRO_REDUX'', env_line environ ''SPECPROD'',
             if reduxdir \<in> existing then ''OK: '' @ reduxdir @ '' exists''
             else ''ERROR: '' @ reduxdir
                    @ '' doesn't exist; check $DESI_SPECTRO_REDUX/$SPECPROD''],
            Inr ())"
    by (rule check_env_returns)
next
  fix e
  assume "specprod_root environ = Inl e"
  then show "check_env specprod_root existing environ =
           ([env_line environ ''DESI_SPECTRO_REDUX'', env_line environ ''SPECPROD''], Inl e)"
    by (rule check_env_propagates)
qed

text \<open>
  The witness takes the values the notebook sets. Every printed line in it is obtained
  from the theorem: the value lines from its first part, the \<open>not set\<close> line from its
  second, the \<open>ERROR\<close> line and the normal return from its third, the exception from its
  fourth.
\<close>

theorem check_env_diagnostics_witness:
  "([''DESI_SPECTRO_REDUX'' \<mapsto> ''/global/cfs/cdirs/desi/spectro/redux'', ''SPECPROD'' \<mapsto> ''daily'']) ''DESI_SPECTRO_REDUX'' = Some ''/global/cfs/cdirs/desi/spectro/redux''
   \<and> ([''DESI_SPECTRO_REDUX'' \<mapsto> ''/global/cfs/cdirs/desi/spectro/redux'', ''SPECPROD'' \<mapsto> ''daily'']) ''SPECPROD'' = Some ''daily''
   \<and> specprod_root_environ ([''DESI_SPECTRO_REDUX'' \<mapsto> ''/global/cfs/cdirs/desi/spectro/redux'', ''SPECPROD'' \<mapsto> ''daily'']) = Inr ''/global/cfs/cdirs/desi/spectro/redux/daily''
   \<and> check_env specprod_root_environ {} ([''DESI_SPECTRO_REDUX'' \<mapsto> ''/global/cfs/cdirs/desi/spectro/redux'', ''SPECPROD'' \<mapsto> ''daily''])
     = ([''$DESI_SPECTRO_REDUX=/global/cfs/cdirs/desi/spectro/redux'', ''$SPECPROD=daily'',
         ''ERROR: /global/cfs/cdirs/desi/spectro/redux/daily''
           @ '' doesn't exist; check $DESI_SPECTRO_REDUX/$SPECPROD''], Inr ())
   \<and> ([''SPECPROD'' \<mapsto> ''daily'']) ''DESI_SPECTRO_REDUX'' = None
   \<and> ([''SPECPROD'' \<mapsto> ''daily'']) ''SPECPROD'' = Some ''daily''
   \<and> specprod_root_environ ([''SPECPROD'' \<mapsto> ''daily'']) = Inl KeyError
   \<and> check_env specprod_root_environ {} ([''SPECPROD'' \<mapsto> ''daily''])
     = ([''Required environment variable DESI_SPECTRO_REDUX not set!'', ''$SPECPROD=daily''],
        Inl KeyError)"
proof -
  have r1: "([''DESI_SPECTRO_REDUX'' \<mapsto> ''/global/cfs/cdirs/desi/spectro/redux'', ''SPECPROD'' \<mapsto> ''daily'']) ''DESI_SPECTRO_REDUX'' = Some ''/global/cfs/cdirs/desi/spectro/redux''"
    and s1: "([''DESI_SPECTRO_REDUX'' \<mapsto> ''/global/cfs/cdirs/desi/spectro/redux'', ''SPECPROD'' \<mapsto> ''daily'']) ''SPECPROD'' = Some ''daily''"
    and r0: "([''SPECPROD'' \<mapsto> ''daily'']) ''DESI_SPECTRO_REDUX'' = None"
    and s0: "([''SPECPROD'' \<mapsto> ''daily'']) ''SPECPROD'' = Some ''daily''"
    by simp_all
  have h1: "specprod_root_environ ([''DESI_SPECTRO_REDUX'' \<mapsto> ''/global/cfs/cdirs/desi/spectro/redux'', ''SPECPROD'' \<mapsto> ''daily'']) = Inr ''/global/cfs/cdirs/desi/spectro/redux/daily''"
    by (simp add: specprod_root_environ_def)
  have h0: "specprod_root_environ ([''SPECPROD'' \<mapsto> ''daily'']) = Inl KeyError"
    by (simp add: specprod_root_environ_def)
  note t1 = check_env_diagnostics [of "[''DESI_SPECTRO_REDUX'' \<mapsto> ''/global/cfs/cdirs/desi/spectro/redux'', ''SPECPROD'' \<mapsto> ''daily'']" specprod_root_environ "{}"]
  note t0 = check_env_diagnostics [of "[''SPECPROD'' \<mapsto> ''daily'']" specprod_root_environ "{}"]
  note set1 = t1 [THEN conjunct1, rule_format]
  note returns1 = t1 [THEN conjunct2, THEN conjunct2, THEN conjunct1, rule_format, OF h1]
  note set0 = t0 [THEN conjunct1, rule_format]
  note unset0 = t0 [THEN conjunct2, THEN conjunct1, rule_format]
  note raises0 = t0 [THEN conjunct2, THEN conjunct2, THEN conjunct2, rule_format, OF h0]
  have "check_env specprod_root_environ {} ([''DESI_SPECTRO_REDUX'' \<mapsto> ''/global/cfs/cdirs/desi/spectro/redux'', ''SPECPROD'' \<mapsto> ''daily''])
     = ([''$DESI_SPECTRO_REDUX=/global/cfs/cdirs/desi/spectro/redux'', ''$SPECPROD=daily'',
         ''ERROR: /global/cfs/cdirs/desi/spectro/redux/daily''
           @ '' doesn't exist; check $DESI_SPECTRO_REDUX/$SPECPROD''], Inr ())"
    unfolding returns1 set1 [OF r1] set1 [OF s1] by simp
  moreover have "check_env specprod_root_environ {} ([''SPECPROD'' \<mapsto> ''daily''])
     = ([''Required environment variable DESI_SPECTRO_REDUX not set!'', ''$SPECPROD=daily''],
        Inl KeyError)"
    unfolding raises0 unset0 [OF r0] set0 [OF s0] by simp
  ultimately show ?thesis
    using r1 s1 r0 s0 h1 h0 by (intro conjI)
qed

text \<open>
  C7, as stated, fails: with neither variable set and a \<open>specprod_root\<close> that reads the
  variables through \<open>os.environ[...]\<close>, \<open>check_env\<close> prints the two \<open>not set\<close>
  diagnostics and then ends with the helper's \<open>KeyError\<close> instead of returning.
\<close>

theorem check_env_raises_counterexample:
  "check_env specprod_root_environ {} Map.empty =
     ([''Required environment variable DESI_SPECTRO_REDUX not set!'',
       ''Required environment variable SPECPROD not set!''],
      Inl KeyError)"
  by (simp add: check_env_def specprod_root_environ_def env_line_def)

section \<open>The cells and the tables they read\<close>

text \<open>
  The cells, as changes of the notebook's variables, compute what \<open>join\<close> and
  \<open>reconstruct\<close> compute.
\<close>

lemma join_cell_result:
  "\<exists>s'. join_cell s = Inr s'
        \<and> join (map zbest_row.TARGETID (v_zs s)) (map fibermap_row.TARGETID (v_targets s))
            = Inr (v_zqsos s')
        \<and> v_zs s' = v_zs s \<and> v_targets s' = v_targets s"
proof -
  obtain d where b: "build_index defaultdict_list (enumerate 0 (map zbest_row.TARGETID (v_zs s))) = Inr d"
    and f: "default_factory d = Some []"
    using build_index_matching_positions by blast
  obtain out d' where "comprehension d (map fibermap_row.TARGETID (v_targets s)) = Inr (out, d')"
    using comprehension_stored [OF f] by blast
  then show ?thesis
    using b by (simp add: join_cell_def join_def)
qed

lemma cell_tflux_result:
  "reconstruct (v_template r) (COEFF (v_zbest_i r)) (Z (v_zbest_i r)) =
     (case cell_tflux (cell_coeff r) of
        (r', None) \<Rightarrow> Inr (v_tflux r', v_twave r')
      | (r', Some e) \<Rightarrow> Inl e)"
  by (simp add: reconstruct_def tflux_def coeff_def ncoeff_def twave_def
      cell_tflux_def cell_coeff_def Let_def split: sum.splits)

text \<open>
  C8. The join cell returns normally and leaves the redshift-fit table and the fibermap
  rows as they were: it assigns only its index \<open>dd\<close> and its result. The reconstruction
  cells, whether the product raises or not, leave the template and the redshift-fit row
  (coefficients and redshift) as they were.
\<close>

theorem cells_leave_tables_unchanged:
  "(\<exists>s'. join_cell s = Inr s' \<and> v_zs s' = v_zs s \<and> v_targets s' = v_targets s)
   \<and> v_template (fst (cell_tflux (cell_coeff r))) = v_template r
   \<and> v_zbest_i (fst (cell_tflux (cell_coeff r))) = v_zbest_i r"
proof -
  have "\<exists>s'. join_cell s = Inr s' \<and> v_zs s' = v_zs s \<and> v_targets s' = v_targets s"
    using join_cell_result [of s] by blast
  moreover have "v_template (fst (cell_tflux (cell_coeff r))) = v_template r"
    by (simp add: cell_tflux_def cell_coeff_def Let_def split: sum.splits)
  moreover have "v_zbest_i (fst (cell_tflux (cell_coeff r))) = v_zbest_i r"
    by (simp add: cell_tflux_def cell_coeff_def Let_def split: sum.splits)
  ultimately show ?thesis by blast
qed

end
